theory Spec2Isabelle
  imports Main "HOL-Library.Word"
begin

section \<open>JavaScript strings and values\<close>

text \<open>
  A JavaScript string is a sequence of 16-bit code units.  All literals of \<^verbatim>\<open>index.js\<close>
  are ASCII apart from the bullet U+25AA, so they are written as Isabelle strings and
  converted with \<open>js\<close>.
\<close>

type_synonym jsstring = "16 word list"

definition js :: "string \<Rightarrow> jsstring" where
  "js s = map of_char s"

definition NL :: jsstring where
  "NL = [0x0A]"

definition TAB :: jsstring where
  "TAB = [0x09]"

definition BULLET :: "16 word" where
  "BULLET = 0x25AA"

text \<open>
  The rows that \<^verbatim>\<open>csvtojson\<close> delivers are plain objects whose property values are
  strings; a column that the CSV line does not reach is simply not set.  Reading a
  property therefore gives a string or \<^verbatim>\<open>undefined\<close>.
\<close>

datatype jsval = Undefined | Str jsstring

type_synonym row = "(jsstring \<times> jsstring) list"

definition getKey :: "row \<Rightarrow> jsstring \<Rightarrow> jsval" where
  "getKey item k = (case map_of item k of None \<Rightarrow> Undefined | Some v \<Rightarrow> Str v)"

definition getProp :: "row \<Rightarrow> string \<Rightarrow> jsval" where
  "getProp item k = getKey item (js k)"

definition keys :: "row \<Rightarrow> jsstring list" where
  "keys item = map fst item"

text \<open>Truthiness (\<^verbatim>\<open>!!v\<close>): of the values above only the non-empty strings are truthy.\<close>

fun truthy :: "jsval \<Rightarrow> bool" where
  "truthy Undefined = False"
| "truthy (Str s) = (s \<noteq> [])"

text \<open>\<^verbatim>\<open>String(v)\<close> and template interpolation.\<close>

fun ToString :: "jsval \<Rightarrow> jsstring" where
  "ToString Undefined = js ''undefined''"
| "ToString (Str s) = s"

text \<open>
  A value that is a string or \<^verbatim>\<open>null\<close> (the results of \<^verbatim>\<open>cleanupStrings\<close> and
  \<^verbatim>\<open>reformatDates\<close>) is an option, \<open>None\<close> being \<^verbatim>\<open>null\<close>.
\<close>

fun truthyN :: "jsstring option \<Rightarrow> bool" where
  "truthyN None = False"
| "truthyN (Some s) = (s \<noteq> [])"

fun StringN :: "jsstring option \<Rightarrow> jsstring" where
  "StringN None = js ''null''"
| "StringN (Some s) = s"

subsection \<open>String methods\<close>

text \<open>\<^verbatim>\<open>String.prototype.trim\<close> removes WhiteSpace and LineTerminator code units.\<close>

definition isWS :: "16 word \<Rightarrow> bool" where
  "isWS c = (c \<in> set [0x09, 0x0A, 0x0B, 0x0C, 0x0D, 0x20, 0xA0, 0x1680,
                        0x2028, 0x2029, 0x202F, 0x205F, 0x3000, 0xFEFF]
             \<or> (0x2000 \<le> c \<and> c \<le> 0x200A))"

definition trim :: "jsstring \<Rightarrow> jsstring" where
  "trim s = rev (dropWhile isWS (rev (dropWhile isWS s)))"

text \<open>\<^verbatim>\<open>s.split(c)\<close> for a separator of one code unit; \<^verbatim>\<open>"".split(c)\<close> is \<^verbatim>\<open>[""]\<close>.\<close>

fun split :: "16 word \<Rightarrow> jsstring \<Rightarrow> jsstring list" where
  "split c [] = [[]]"
| "split c (x # xs) =
     (if x = c then [] # split c xs
      else (case split c xs of [] \<Rightarrow> [[x]] | l # ls \<Rightarrow> (x # l) # ls))"

text \<open>\<^verbatim>\<open>xs.join(sep)\<close> on an array of strings.\<close>

fun join :: "jsstring \<Rightarrow> jsstring list \<Rightarrow> jsstring" where
  "join sep [] = []"
| "join sep [x] = x"
| "join sep (x # y # ys) = x @ sep @ join sep (y # ys)"

text \<open>\<^verbatim>\<open>s.replace(/^c/, "")\<close>: drops the first code unit when it is \<open>c\<close>.\<close>

fun replaceLeading :: "16 word \<Rightarrow> jsstring \<Rightarrow> jsstring" where
  "replaceLeading c [] = []"
| "replaceLeading c (x # xs) = (if x = c then xs else x # xs)"

text \<open>\<^verbatim>\<open>s.charAt(0)\<close> and \<^verbatim>\<open>s.slice(1)\<close>.\<close>

definition charAt0 :: "jsstring \<Rightarrow> jsstring" where
  "charAt0 s = take 1 s"

definition slice1 :: "jsstring \<Rightarrow> jsstring" where
  "slice1 s = drop 1 s"

text \<open>\<^verbatim>\<open>a < b\<close> on two strings: lexicographic on code units, a proper prefix is smaller.\<close>

fun str_lt :: "jsstring \<Rightarrow> jsstring \<Rightarrow> bool" where
  "str_lt [] [] = False"
| "str_lt [] (y # ys) = True"
| "str_lt (x # xs) [] = False"
| "str_lt (x # xs) (y # ys) = (if x < y then True else if y < x then False else str_lt xs ys)"

text \<open>
  \<^verbatim>\<open>a < b\<close> on two property values.  Unless both are strings the operands are converted
  to numbers, and \<^verbatim>\<open>undefined\<close> converts to NaN, which compares false.
\<close>

fun val_lt :: "jsval \<Rightarrow> jsval \<Rightarrow> bool" where
  "val_lt (Str a) (Str b) = str_lt a b"
| "val_lt _ _ = False"

subsection \<open>Conversion of a string to a number, as far as comparisons with 0 need it\<close>

text \<open>
  \<^verbatim>\<open>item.status != 0\<close> and \<^verbatim>\<open>item.priority > 0\<close> convert the string with StringToNumber
  (ECMAScript, StringNumericLiteral).  Only the class of the result matters here.
\<close>

datatype numclass = NaN | Zero | Positive | Negative

definition isDigit :: "16 word \<Rightarrow> bool" where
  "isDigit c = (0x30 \<le> c \<and> c \<le> 0x39)"

definition isHexDigit :: "16 word \<Rightarrow> bool" where
  "isHexDigit c = (isDigit c \<or> (0x41 \<le> c \<and> c \<le> 0x46) \<or> (0x61 \<le> c \<and> c \<le> 0x66))"

definition isOctalDigit :: "16 word \<Rightarrow> bool" where
  "isOctalDigit c = (0x30 \<le> c \<and> c \<le> 0x37)"

definition isBinaryDigit :: "16 word \<Rightarrow> bool" where
  "isBinaryDigit c = (c = 0x30 \<or> c = 0x31)"

definition decimalValue :: "jsstring \<Rightarrow> int" where
  "decimalValue ds = foldl (\<lambda>n c. 10 * n + (uint c - 0x30)) 0 ds"

text \<open>
  The digits \<open>m\<close> scaled by \<open>10 ^ e\<close> convert to \<open>+0\<close> exactly when the value is at most
  \<open>2 ^ -1075\<close>, half of the least positive double (ties go to the even mantissa, 0).
\<close>

definition roundsToZero :: "int \<Rightarrow> int \<Rightarrow> bool" where
  "roundsToZero m e = (m = 0 \<or> (e < 0 \<and> m * 2 ^ 1075 \<le> 10 ^ nat (- e)))"

text \<open>ExponentPart, optional, up to the end of the literal.\<close>

definition exponentDigits :: "int \<Rightarrow> jsstring \<Rightarrow> int option" where
  "exponentDigits sg ds =
     (if ds \<noteq> [] \<and> list_all isDigit ds then Some (sg * decimalValue ds) else None)"

fun exponentPart :: "jsstring \<Rightarrow> int option" where
  "exponentPart [] = Some 0"
| "exponentPart [c] = None"
| "exponentPart (c # d # ds) =
     (if c = 0x65 \<or> c = 0x45 then
        (if d = 0x2B then exponentDigits 1 ds
         else if d = 0x2D then exponentDigits (- 1) ds
         else exponentDigits 1 (d # ds))
      else None)"

text \<open>StrUnsignedDecimalLiteral.\<close>

definition strUnsignedDecimalLiteral :: "jsstring \<Rightarrow> numclass" where
  "strUnsignedDecimalLiteral s =
     (if s = js ''Infinity'' then Positive
      else
        let ip = takeWhile isDigit s;
            r1 = dropWhile isDigit s;
            dot = (r1 \<noteq> [] \<and> hd r1 = 0x2E);
            fp = (if dot then takeWhile isDigit (tl r1) else []);
            r2 = (if dot then dropWhile isDigit (tl r1) else r1)
        in if ip = [] \<and> fp = [] then NaN
           else (case exponentPart r2 of
                   None \<Rightarrow> NaN
                 | Some e \<Rightarrow>
                     if roundsToZero (decimalValue (ip @ fp)) (e - int (length fp))
                     then Zero else Positive))"

fun negate :: "numclass \<Rightarrow> numclass" where
  "negate Positive = Negative"
| "negate Negative = Positive"
| "negate c = c"

text \<open>NonDecimalIntegerLiteral: \<open>Some True\<close> when its value is 0, \<open>None\<close> when \<open>t\<close> is none.\<close>

fun nonDecimalIntegerLiteral :: "jsstring \<Rightarrow> bool option" where
  "nonDecimalIntegerLiteral (a # b # d # ds) =
     (if a = 0x30 \<and>
         (((b = 0x78 \<or> b = 0x58) \<and> list_all isHexDigit (d # ds)) \<or>
          ((b = 0x6F \<or> b = 0x4F) \<and> list_all isOctalDigit (d # ds)) \<or>
          ((b = 0x62 \<or> b = 0x42) \<and> list_all isBinaryDigit (d # ds)))
      then Some (list_all (\<lambda>c. c = 0x30) (d # ds)) else None)"
| "nonDecimalIntegerLiteral _ = None"

definition StringToNumber :: "jsstring \<Rightarrow> numclass" where
  "StringToNumber s =
     (let t = trim s in
      if t = [] then Zero
      else (case nonDecimalIntegerLiteral t of
              Some z \<Rightarrow> (if z then Zero else Positive)
            | None \<Rightarrow>
                if hd t = 0x2B then strUnsignedDecimalLiteral (tl t)
                else if hd t = 0x2D then negate (strUnsignedDecimalLiteral (tl t))
                else strUnsignedDecimalLiteral t))"

fun ToNumber :: "jsval \<Rightarrow> numclass" where
  "ToNumber Undefined = NaN"
| "ToNumber (Str s) = StringToNumber s"

text \<open>\<^verbatim>\<open>v != 0\<close> and \<^verbatim>\<open>v > 0\<close>.  \<^verbatim>\<open>undefined == 0\<close> is false without any conversion.\<close>

definition ne_zero :: "jsval \<Rightarrow> bool" where
  "ne_zero v = (ToNumber v \<noteq> Zero)"

definition gt_zero :: "jsval \<Rightarrow> bool" where
  "gt_zero v = (ToNumber v = Positive)"

section \<open>The host environment\<close>

text \<open>
  \<^verbatim>\<open>index.js\<close> calls into packages and built-ins whose code is not part of the program:
  luxon's \<^verbatim>\<open>DateTime\<close> (\<^verbatim>\<open>fromISO\<close>, \<^verbatim>\<open>isValid\<close>, \<^verbatim>\<open>toUTC\<close>, \<^verbatim>\<open>setZone\<close>, \<^verbatim>\<open>toFormat\<close>),
  the package \<^verbatim>\<open>indent-string\<close>, and the Unicode case mappings behind
  \<^verbatim>\<open>toLowerCase\<close> and \<^verbatim>\<open>toUpperCase\<close>.  They are parameters of the model: every theorem
  below holds for whatever these functions compute.  \<open>'dt\<close> is the type of luxon's
  DateTime objects.
\<close>

record 'dt env =
  fromISO :: "jsstring \<Rightarrow> 'dt"
  isValid :: "'dt \<Rightarrow> bool"
  toUTC :: "'dt \<Rightarrow> 'dt"
  setZone :: "'dt \<Rightarrow> jsval \<Rightarrow> 'dt"
  toFormat :: "'dt \<Rightarrow> jsstring \<Rightarrow> jsstring"
  indentString :: "jsstring \<Rightarrow> nat \<Rightarrow> jsstring \<Rightarrow> jsstring"
  toLowerCase :: "jsstring \<Rightarrow> jsstring"
  toUpperCase :: "jsstring \<Rightarrow> jsstring"

section \<open>General helpers of index.js\<close>

text \<open>
  \<^verbatim>\<open>cleanupStrings(value, fallback = "")\<close>; callers that give one argument pass
  \<open>Some []\<close> here.
\<close>

definition cleanupStrings :: "jsval \<Rightarrow> jsstring option \<Rightarrow> jsstring option" where
  "cleanupStrings v fallback =
     (if trim (ToString v) \<noteq> [] then Some (trim (ToString v)) else fallback)"

definition dateFormat :: jsstring where
  "dateFormat = js ''MM/dd/yyyy h:mm:ss a''"

definition reformatDates :: "'dt env \<Rightarrow> jsval \<Rightarrow> jsval \<Rightarrow> jsstring option" where
  "reformatDates E ttDateTime ttTimezone =
     (if \<not> truthy ttDateTime \<or> \<not> isValid E (fromISO E (ToString ttDateTime)) then None
      else
        let parsedToUTC = toUTC E (fromISO E (ToString ttDateTime));
            utcToLocal = setZone E parsedToUTC ttTimezone
        in Some (toFormat E utcToLocal dateFormat))"

text \<open>The \<^verbatim>\<open>map((w, i) => ...)\<close> of \<^verbatim>\<open>keyToCamelCase\<close>, with the index passed along.\<close>

fun camelWords :: "'dt env \<Rightarrow> nat \<Rightarrow> jsstring list \<Rightarrow> jsstring list" where
  "camelWords E i [] = []"
| "camelWords E i (w # ws) =
     (if i \<noteq> 0 then toUpperCase E (charAt0 w) @ slice1 w else w) # camelWords E (Suc i) ws"

definition keyToCamelCase :: "'dt env \<Rightarrow> jsstring \<Rightarrow> jsstring" where
  "keyToCamelCase E key = join [] (camelWords E 0 (split 0x20 (toLowerCase E key)))"

section \<open>Conversion helpers of index.js\<close>

definition tpDone :: "'dt env \<Rightarrow> row \<Rightarrow> jsstring" where
  "tpDone E item =
     (let completed = ne_zero (getProp item ''status'');
          completionDate = reformatDates E (getProp item ''completedTime'') (getProp item ''timezone'')
      in if completed \<and> truthyN completionDate
         then js '' @done('' @ StringN completionDate @ js '')'' else [])"

definition tpDefer :: "'dt env \<Rightarrow> row \<Rightarrow> jsstring" where
  "tpDefer E item =
     (let deferDate = reformatDates E (getProp item ''createdTime'') (getProp item ''timezone'')
      in if truthyN deferDate then js '' @defer('' @ StringN deferDate @ js '')'' else [])"

definition tpDue :: "'dt env \<Rightarrow> row \<Rightarrow> jsstring" where
  "tpDue E item =
     (let dueDate = reformatDates E (getProp item ''dueDate'') (getProp item ''timezone'')
      in if truthyN dueDate then js '' @due('' @ StringN dueDate @ js '')'' else [])"

definition tpFlagged :: "row \<Rightarrow> jsstring" where
  "tpFlagged item = (if gt_zero (getProp item ''priority'') then js '' @flagged'' else [])"

definition tpNote :: "row \<Rightarrow> jsstring" where
  "tpNote item =
     (if truthy (getProp item ''content'')
      then join NL
             (map (\<lambda>line. replaceLeading BULLET (replaceLeading 0x2D line))
                  (split 0x0A (StringN (cleanupStrings (getProp item ''content'') (Some [])))))
      else [])"

definition tpProject :: "row \<Rightarrow> jsstring" where
  "tpProject item =
     (let folder = (if truthy (getProp item ''folderName'')
                    then StringN (cleanupStrings (getProp item ''folderName'') (Some [])) else []);
          list = (if truthy (getProp item ''listName'')
                  then StringN (cleanupStrings (getProp item ''listName'') (Some [])) else [])
      in if folder \<noteq> [] \<or> list \<noteq> []
         then StringN (cleanupStrings (Str (folder @ js '' '' @ list)) (Some []))
         else [])"

definition tpRepeat :: "row \<Rightarrow> jsstring" where
  "tpRepeat item =
     (let repeatRule = cleanupStrings (getProp item ''repeat'') None
      in if truthyN repeatRule
         then js '' @repeat-method(fixed) @repeat-rule('' @ StringN repeatRule @ js '')''
         else [])"

definition tpTags :: "row \<Rightarrow> jsstring" where
  "tpTags item =
     (let tags = StringN (cleanupStrings (getProp item ''tags'') (Some []));
          priority = (if truthy (getProp item ''priority'')
                      then js ''priority-'' @ ToString (getProp item ''priority'') else [])
      in if tags \<noteq> [] \<or> priority \<noteq> []
         then js '' @tags('' @ tags @ (if tags \<noteq> [] \<and> priority \<noteq> [] then js '', '' else [])
              @ priority @ js '')''
         else [])"

definition tpTitle :: "row \<Rightarrow> jsstring" where
  "tpTitle item = StringN (cleanupStrings (getProp item ''title'') (Some []))"

section \<open>Organization helpers of index.js\<close>

definition sortByProjectAndCreation :: "row \<Rightarrow> row \<Rightarrow> int" where
  "sortByProjectAndCreation a b =
     (let aProjectName = StringN (cleanupStrings
            (Str (ToString (getProp a ''folderName'') @ js '' '' @ ToString (getProp a ''listName'')))
            (Some []));
          bProjectName = StringN (cleanupStrings
            (Str (ToString (getProp b ''folderName'') @ js '' '' @ ToString (getProp b ''listName'')))
            (Some []))
      in if str_lt aProjectName bProjectName then - 1
         else if str_lt bProjectName aProjectName then 1
         else if val_lt (getProp a ''createdTime'') (getProp b ''createdTime'') then - 1
         else if val_lt (getProp b ''createdTime'') (getProp a ''createdTime'') then 1
         else 0)"

text \<open>
  \<^verbatim>\<open>Array.prototype.sort\<close> with a comparator is a stable sort.  For a consistent
  comparator its result is determined, and it is the result of stable insertion, which
  is the model; for an inconsistent one (here: rows without \<^verbatim>\<open>createdTime\<close>, which
  compare equal to every row of their project) the order is left to the engine.
\<close>

fun insertBy :: "('a \<Rightarrow> 'a \<Rightarrow> int) \<Rightarrow> 'a \<Rightarrow> 'a list \<Rightarrow> 'a list" where
  "insertBy cmp x [] = [x]"
| "insertBy cmp x (y # ys) = (if cmp x y \<le> 0 then x # y # ys else y # insertBy cmp x ys)"

definition sortBy :: "('a \<Rightarrow> 'a \<Rightarrow> int) \<Rightarrow> 'a list \<Rightarrow> 'a list" where
  "sortBy cmp xs = foldr (insertBy cmp) xs []"

text \<open>
  The accumulator \<^verbatim>\<open>acc\<close> is a plain object used as a dictionary from project names to
  arrays of text blocks: its own properties, in the order of their creation.  It
  inherits the properties of \<^verbatim>\<open>Object.prototype\<close>, whose names are listed here; their
  values are functions (or the prototype itself), all truthy and none with a
  \<^verbatim>\<open>push\<close> method.
\<close>

type_synonym projects = "(jsstring \<times> jsstring list) list"

definition objectPrototypeKeys :: "jsstring list" where
  "objectPrototypeKeys = map js
     [''constructor'', ''__defineGetter__'', ''__defineSetter__'', ''hasOwnProperty'',
      ''__lookupGetter__'', ''__lookupSetter__'', ''isPrototypeOf'', ''propertyIsEnumerable'',
      ''toString'', ''valueOf'', ''__proto__'', ''toLocaleString'']"

datatype exn = TypeError

fun push :: "projects \<Rightarrow> jsstring \<Rightarrow> jsstring \<Rightarrow> projects" where
  "push [] k v = []"
| "push ((k', blocks) # ps) k v =
     (if k' = k then (k', blocks @ [v]) # ps else (k', blocks) # push ps k v)"

definition listTasksByProject :: "'dt env \<Rightarrow> projects \<Rightarrow> row \<Rightarrow> exn + projects" where
  "listTasksByProject E acc task =
     (let projectName = trim (tpProject task);
          dates = js '' '' @ tpDefer E task @ tpDue E task @ tpDone E task;
          meta = js '' '' @ tpFlagged task @ tpRepeat task @ tpTags task;
          note = indentString E (tpNote task) 1 TAB;
          each = trim (NL @ js ''- '' @ tpTitle task @ dates @ meta @ NL @ note);
          output = indentString E each 1 TAB
      in case map_of acc projectName of
           Some blocks \<Rightarrow> Inr (push acc projectName output)
         | None \<Rightarrow>
             if projectName \<in> set objectPrototypeKeys then Inl TypeError
             else Inr (acc @ [(projectName, [NL @ projectName @ js '':'', output])]))"

text \<open>\<^verbatim>\<open>rows.reduce(listTasksByProject, {})\<close>; an exception ends the loop.\<close>

fun reduceTasks :: "'dt env \<Rightarrow> projects \<Rightarrow> row list \<Rightarrow> exn + projects" where
  "reduceTasks E acc [] = Inr acc"
| "reduceTasks E acc (task # tasks) =
     (case listTasksByProject E acc task of
        Inl e \<Rightarrow> Inl e
      | Inr acc' \<Rightarrow> reduceTasks E acc' tasks)"

text \<open>
  \<^verbatim>\<open>Object.values\<close> enumerates the own properties whose names are array indices
  (canonical decimal numerals below \<open>2^32 - 1\<close>) first, in ascending numeric order, and
  then the others in the order of their creation.
\<close>

definition isArrayIndex :: "jsstring \<Rightarrow> bool" where
  "isArrayIndex k = (k \<noteq> [] \<and> list_all isDigit k \<and> (hd k \<noteq> 0x30 \<or> length k = 1)
                     \<and> decimalValue k < 2 ^ 32 - 1)"


definition objectValues :: "projects \<Rightarrow> jsstring list list" where
  "objectValues obj = map snd
     (sort_key (\<lambda>p. decimalValue (fst p)) (filter (\<lambda>p. isArrayIndex (fst p)) obj)
      @ filter (\<lambda>p. \<not> isArrayIndex (fst p)) obj)"

section \<open>The conversion from parsed rows, parseJson\<close>

datatype errorKey = path | extension | format

text \<open>The test that \<^verbatim>\<open>findIndex\<close> applies to a row.\<close>

definition isHeaderRow :: "'dt env \<Rightarrow> row \<Rightarrow> bool" where
  "isHeaderRow E task =
     foldl (\<lambda>acc each. acc \<and> each) True
       (map (\<lambda>key. key = keyToCamelCase E (ToString (getKey task key))) (keys task))"

fun findIndex :: "('a \<Rightarrow> bool) \<Rightarrow> 'a list \<Rightarrow> int" where
  "findIndex P [] = - 1"
| "findIndex P (x # xs) =
     (if P x then 0 else (let i = findIndex P xs in if i < 0 then - 1 else i + 1))"

text \<open>\<^verbatim>\<open>xs.splice(start)\<close> returns the elements from \<open>start\<close> on; a negative \<open>start\<close>
  counts from the end.\<close>

definition splice :: "'a list \<Rightarrow> int \<Rightarrow> 'a list" where
  "splice xs start =
     (if start < 0 then drop (nat (int (length xs) + start)) xs else drop (nat start) xs)"

definition headerRowIndex :: "'dt env \<Rightarrow> row list \<Rightarrow> int" where
  "headerRowIndex E json = findIndex (isHeaderRow E) json"

text \<open>Lines 159 to 165: sorting, grouping and joining; the result is the text given to
  \<^verbatim>\<open>copy\<close>, or the exception that escapes.\<close>

definition render :: "'dt env \<Rightarrow> row list \<Rightarrow> exn + jsstring" where
  "render E json =
     (case reduceTasks E [] (sortBy sortByProjectAndCreation json) of
        Inl e \<Rightarrow> Inl e
      | Inr projects \<Rightarrow>
          Inr (join (NL @ NL) (map (\<lambda>project. join (NL @ NL) project) (objectValues projects))))"

text \<open>
  \<^verbatim>\<open>parseJson\<close> returns the errors it reported through \<^verbatim>\<open>reportError\<close> and what became
  of the text.
\<close>

definition parseJson :: "'dt env \<Rightarrow> row list \<Rightarrow> errorKey list \<times> (exn + jsstring)" where
  "parseJson E json =
     (let reported = (if headerRowIndex E json < 0 then [format] else []);
          json' = splice json (headerRowIndex E json + 1)
      in (reported, render E json'))"

section \<open>A stand-in environment for running the model\<close>

text \<open>
  To evaluate the model on examples the environment has to be something.  \<open>stubEnv\<close>
  indents like \<^verbatim>\<open>indent-string\<close> (the padding goes before every line that is not
  blank), maps case on ASCII letters, and has placeholder dates: a text is a valid
  timestamp when it starts with four digits, and it is printed as it is, followed by
  \<^verbatim>\<open>@\<close> and the zone.  The theorems about every input hold for every environment;
  \<open>stubEnv\<close> serves to instantiate them and to run single inputs, none of which depends
  on its dates.
\<close>

datatype stubDateTime = InvalidDateTime | DateTime jsstring jsval

definition stubEnv :: "stubDateTime env" where
  "stubEnv = \<lparr>
     fromISO = (\<lambda>s. if 4 \<le> length s \<and> list_all isDigit (take 4 s)
                     then DateTime s Undefined else InvalidDateTime),
     isValid = (\<lambda>d. d \<noteq> InvalidDateTime),
     toUTC = (\<lambda>d. d),
     setZone = (\<lambda>d z. case d of InvalidDateTime \<Rightarrow> InvalidDateTime | DateTime s _ \<Rightarrow> DateTime s z),
     toFormat = (\<lambda>d f. case d of InvalidDateTime \<Rightarrow> js ''Invalid DateTime''
                         | DateTime s z \<Rightarrow> s @ js ''@'' @ ToString z),
     indentString = (\<lambda>s n pad.
        join NL (map (\<lambda>l. if list_all isWS l then l else concat (replicate n pad) @ l)
                     (split 0x0A s))),
     toLowerCase = map (\<lambda>c. if 0x41 \<le> c \<and> c \<le> 0x5A then c + 0x20 else c),
     toUpperCase = map (\<lambda>c. if 0x61 \<le> c \<and> c \<le> 0x7A then c - 0x20 else c)
   \<rparr>"

text \<open>Example rows: the header line of an export and two tasks.\<close>

definition mkRow :: "(string \<times> string) list \<Rightarrow> row" where
  "mkRow kvs = map (\<lambda>(k, v). (js k, js v)) kvs"

definition exampleHeader :: row where
  "exampleHeader = mkRow
     [(''folderName'', ''Folder Name''), (''listName'', ''List Name''), (''title'', ''Title''),
      (''tags'', ''Tags''), (''content'', ''Content''), (''isCheckList'', ''Is Check list''),
      (''startDate'', ''Start Date''), (''dueDate'', ''Due Date''), (''reminder'', ''Reminder''),
      (''repeat'', ''Repeat''), (''priority'', ''Priority''), (''status'', ''Status''),
      (''createdTime'', ''Created Time''), (''completedTime'', ''Completed Time''),
      (''order'', ''Order''), (''timezone'', ''Timezone''), (''isAllDay'', ''Is All Day''),
      (''isFloating'', ''Is Floating''), (''columnName'', ''Column Name''),
      (''columnOrder'', ''Column Order''), (''viewMode'', ''View Mode'')]"

definition exampleTask :: "string \<Rightarrow> string \<Rightarrow> string \<Rightarrow> string \<Rightarrow> row" where
  "exampleTask folder list title created = mkRow
     [(''folderName'', folder), (''listName'', list), (''title'', title),
      (''tags'', []), (''content'', []), (''dueDate'', []), (''repeat'', []),
      (''priority'', []), (''status'', ''0''), (''createdTime'', created),
      (''completedTime'', []), (''timezone'', ''Europe/Paris'')]"

section \<open>Notions used to state the properties\<close>







text \<open>
  Lines 161 to 165 of \<^verbatim>\<open>parseJson\<close>, applied to the array that \<^verbatim>\<open>sort\<close> returns: the
  grouping into buckets and the two joins.
\<close>

definition groupAndJoin :: "'dt env \<Rightarrow> row list \<Rightarrow> exn + jsstring" where
  "groupAndJoin E arr =
     (case reduceTasks E [] arr of
        Inl e \<Rightarrow> Inl e
      | Inr projects \<Rightarrow>
          Inr (join (NL @ NL) (map (\<lambda>project. join (NL @ NL) project) (objectValues projects))))"


section \<open>Properties of the field encoders\<close>

lemma reformatDates_None_iff:
  "reformatDates E t z = None \<longleftrightarrow> \<not> truthy t \<or> \<not> isValid E (fromISO E (ToString t))"
  by (simp add: reformatDates_def Let_def)

lemma reformatDates_Some:
  "truthy t \<Longrightarrow> isValid E (fromISO E (ToString t)) \<Longrightarrow>
   reformatDates E t z =
     Some (toFormat E (setZone E (toUTC E (fromISO E (ToString t))) z) dateFormat)"
  by (simp add: reformatDates_def Let_def)

lemma StringToNumber_0: "StringToNumber (js ''0'') = Zero"
  by code_simp

lemma stub_toFormat: "\<forall>x. toFormat stubEnv x dateFormat \<noteq> []"
  by (simp add: stubEnv_def js_def split: stubDateTime.split)

text \<open>
  Claim C1.  For every record, \<open>tpDone\<close> gives the fragment \<^verbatim>\<open> @done(<date>)\<close>, the date
  being the formatted \<^verbatim>\<open>completedTime\<close> in the record's \<^verbatim>\<open>timezone\<close>, exactly when the
  status is not 0 (the test \<^verbatim>\<open>item.status != 0\<close>) and the formatting succeeds, and the
  empty string in every other case.  The formatting succeeds when \<open>reformatDates\<close> gives
  a string that passes the test \<^verbatim>\<open>!!completionDate\<close>; with a formatter that never prints
  the empty string this is the same as its result not being \<^verbatim>\<open>null\<close>.  In particular a
  status that converts to the number 0, such as the cell \<^verbatim>\<open>0\<close>, gives no tag whatever
  \<^verbatim>\<open>completedTime\<close> is.
\<close>

theorem tpDone_done_tag:
  "let d = reformatDates E (getProp item ''completedTime'') (getProp item ''timezone'');
       completed = ne_zero (getProp item ''status'')
   in tpDone E item = (if completed \<and> truthyN d then js '' @done('' @ StringN d @ js '')'' else [])
      \<and> (tpDone E item \<noteq> [] \<longleftrightarrow> completed \<and> truthyN d)
      \<and> ((\<forall>x. toFormat E x dateFormat \<noteq> []) \<longrightarrow> (truthyN d \<longleftrightarrow> d \<noteq> None))
      \<and> (ToNumber (getProp item ''status'') = Zero \<longrightarrow> tpDone E item = [])
      \<and> (getProp item ''status'' = Str (js ''0'') \<longrightarrow> tpDone E item = [])"
proof -
  define d where "d = reformatDates E (getProp item ''completedTime'') (getProp item ''timezone'')"
  define completed where "completed = ne_zero (getProp item ''status'')"
  have eq: "tpDone E item =
      (if completed \<and> truthyN d then js '' @done('' @ StringN d @ js '')'' else [])"
    by (simp add: tpDone_def Let_def d_def completed_def)
  have nonempty: "js '' @done('' @ StringN d @ js '')'' \<noteq> []"
    by (simp add: js_def)
  have iff: "tpDone E item \<noteq> [] \<longleftrightarrow> completed \<and> truthyN d"
    using eq nonempty by simp
  have fmt: "(\<forall>x. toFormat E x dateFormat \<noteq> []) \<longrightarrow> (truthyN d \<longleftrightarrow> d \<noteq> None)"
    by (cases d) (auto simp: d_def reformatDates_def Let_def split: if_splits)
  have zero: "ToNumber (getProp item ''status'') = Zero \<longrightarrow> tpDone E item = []"
    using eq by (simp add: completed_def ne_zero_def)
  have zero': "getProp item ''status'' = Str (js ''0'') \<longrightarrow> tpDone E item = []"
    using zero by (simp add: StringToNumber_0)
  show ?thesis
    using eq iff fmt zero zero' by (simp add: Let_def d_def completed_def)
qed

theorem tpDone_done_tag_witness:
  "tpDone stubEnv (mkRow [(''status'', ''2''), (''completedTime'', ''2024-03-14T21:05:00.000+0000''),
                          (''timezone'', ''Europe/Paris'')])
     = js '' @done(2024-03-14T21:05:00.000+0000@Europe/Paris)''
   \<and> tpDone stubEnv (mkRow [(''status'', ''0''), (''completedTime'', ''2024-03-14T21:05:00.000+0000''),
                          (''timezone'', ''Europe/Paris'')]) = []
   \<and> tpDone stubEnv (mkRow [(''status'', ''2''), (''completedTime'', ''soon''),
                          (''timezone'', ''Europe/Paris'')]) = []
   \<and> tpDone stubEnv (mkRow [(''status'', []), (''completedTime'', ''2024-03-14T21:05:00.000+0000''),
                          (''timezone'', ''Europe/Paris'')]) = []
   \<and> (\<forall>x. toFormat stubEnv x dateFormat \<noteq> [])
   \<and> reformatDates stubEnv (Str (js ''soon'')) (Str (js ''Europe/Paris'')) = None"
proof -
  let ?e = "mkRow [(''status'', []), (''completedTime'', ''2024-03-14T21:05:00.000+0000''),
                   (''timezone'', ''Europe/Paris'')]"
  have se: "ToNumber (getProp ?e ''status'') = Zero" by code_simp
  let ?a = "mkRow [(''status'', ''2''), (''completedTime'', ''2024-03-14T21:05:00.000+0000''),
                   (''timezone'', ''Europe/Paris'')]"
  let ?b = "mkRow [(''status'', ''0''), (''completedTime'', ''2024-03-14T21:05:00.000+0000''),
                   (''timezone'', ''Europe/Paris'')]"
  let ?c = "mkRow [(''status'', ''2''), (''completedTime'', ''soon''),
                   (''timezone'', ''Europe/Paris'')]"
  have sa: "ne_zero (getProp ?a ''status'')" by code_simp
  have da: "reformatDates stubEnv (getProp ?a ''completedTime'') (getProp ?a ''timezone'')
            = Some (js ''2024-03-14T21:05:00.000+0000@Europe/Paris'')" by code_simp
  have sb: "getProp ?b ''status'' = Str (js ''0'')" by code_simp
  have pc: "getProp ?c ''completedTime'' = Str (js ''soon'')"
           "getProp ?c ''timezone'' = Str (js ''Europe/Paris'')" by code_simp+
  have tc: "\<not> truthyN (reformatDates stubEnv (getProp ?c ''completedTime'') (getProp ?c ''timezone''))"
    by code_simp
  note t = tpDone_done_tag [unfolded Let_def]
  have 1: "tpDone stubEnv ?a = js '' @done(2024-03-14T21:05:00.000+0000@Europe/Paris)''"
    using t [of stubEnv ?a, THEN conjunct1] sa da by (simp add: js_def)
  have 2: "tpDone stubEnv ?b = []"
    using t [of stubEnv ?b, THEN conjunct2, THEN conjunct2, THEN conjunct2, THEN conjunct2] sb
    by (rule mp)
  have 3: "tpDone stubEnv ?c = []"
    using t [of stubEnv ?c, THEN conjunct1] tc by simp
  have 4: "reformatDates stubEnv (Str (js ''soon'')) (Str (js ''Europe/Paris'')) = None"
    using t [of stubEnv ?c, THEN conjunct2, THEN conjunct2, THEN conjunct1] stub_toFormat tc
    unfolding pc by blast
  have 5: "tpDone stubEnv ?e = []"
    using t [of stubEnv ?e, THEN conjunct2, THEN conjunct2, THEN conjunct2, THEN conjunct1] se
    by (rule mp)
  show ?thesis using 1 2 3 4 5 stub_toFormat by blast
qed

text \<open>
  Claim C2 holds that \<^verbatim>\<open>priority-N\<close> is appended only if the priority is above 0, so that
  a record with priority 0 and no tags has no \<^verbatim>\<open>@tags\<close> fragment.  The code tests
  \<^verbatim>\<open>item.priority ? ... : ""\<close> on the cell, a string, and the string \<^verbatim>\<open>0\<close> is truthy: the
  record with priority 0 and no tags gets \<^verbatim>\<open> @tags(priority-0)\<close>, although \<open>tpFlagged\<close>,
  which compares \<^verbatim>\<open>item.priority > 0\<close>, leaves it unflagged.
\<close>

theorem tpTags_priority_0:
  "tpTags (mkRow [(''tags'', []), (''priority'', ''0'')]) = js '' @tags(priority-0)''
   \<and> tpFlagged (mkRow [(''tags'', []), (''priority'', ''0'')]) = []"
  by code_simp

theorem tpTags_priority_0_witness:
  "tpTags (mkRow [(''tags'', []), (''priority'', ''0'')]) \<noteq> []"
  using tpTags_priority_0 [THEN conjunct1] by (simp add: js_def)

text \<open>
  Claim C8 holds that a field whose key is missing is treated as empty and contributes
  no text.  \<open>cleanupStrings\<close> applies \<^verbatim>\<open>String\<close> to the value, which turns \<^verbatim>\<open>undefined\<close> into
  the text \<^verbatim>\<open>undefined\<close>: a row that ends before the \<^verbatim>\<open>tags\<close> column gets the fragment
  \<^verbatim>\<open> @tags(undefined)\<close>.  \<open>tpNote\<close> and \<open>tpProject\<close> test the field before they clean it
  and give the empty string for the same row.
\<close>

theorem tpTags_missing_key:
  "cleanupStrings (getProp (mkRow [(''folderName'', ''Work''), (''listName'', ''Admin''),
                                   (''title'', ''Pay rent'')]) ''tags'') (Some [])
     = Some (js ''undefined'')
   \<and> tpTags (mkRow [(''folderName'', ''Work''), (''listName'', ''Admin''), (''title'', ''Pay rent'')])
     = js '' @tags(undefined)''
   \<and> tpNote (mkRow [(''folderName'', ''Work''), (''listName'', ''Admin''), (''title'', ''Pay rent'')])
     = []"
  by code_simp

theorem tpTags_missing_key_witness:
  "tpTags (mkRow [(''folderName'', ''Work''), (''listName'', ''Admin''), (''title'', ''Pay rent'')])
     \<noteq> []"
  using tpTags_missing_key [THEN conjunct2, THEN conjunct1] by (simp add: js_def)

text \<open>
  Claim C9 ends with the note \<^verbatim>\<open>- call landlord\<close> rendered as \<^verbatim>\<open>call landlord\<close>.  Only the
  dash goes: the space after it stays.
\<close>

theorem tpNote_call_landlord_counterexample:
  "tpNote (mkRow [(''content'', ''- call landlord'')]) \<noteq> js ''call landlord''"
  by code_simp

lemma replaceLeading_both:
  "replaceLeading BULLET (replaceLeading 0x2D line) =
     (case line of
        [] \<Rightarrow> []
      | [c] \<Rightarrow> if c = 0x2D \<or> c = BULLET then [] else line
      | c # d # r \<Rightarrow> if c = 0x2D \<and> d = BULLET then r
                     else if c = 0x2D \<or> c = BULLET then d # r else line)"
  by (auto simp: BULLET_def split: list.splits)

text \<open>
  Claim C9, amended.  For every record, \<open>tpNote\<close> trims the note, splits it at the
  newlines, removes from the start of every line a dash if there is one and then a
  bullet U+25AA if there is one (so \<^verbatim>\<open>-\<close> followed by the bullet loses both, and nothing
  else of the line goes), and joins the lines with newlines; it gives the empty string
  when the note is empty or missing.  The note \<^verbatim>\<open>- call landlord\<close> gives
  \<^verbatim>\<open> call landlord\<close>, the dash stripped and the space after it kept.
\<close>

theorem tpNote_lines:
  "tpNote item =
     (if truthy (getProp item ''content'')
      then join NL (map (\<lambda>line. case line of
                                  [] \<Rightarrow> []
                                | [c] \<Rightarrow> if c = 0x2D \<or> c = BULLET then [] else line
                                | c # d # r \<Rightarrow> if c = 0x2D \<and> d = BULLET then r
                                               else if c = 0x2D \<or> c = BULLET then d # r else line)
                        (split 0x0A (trim (ToString (getProp item ''content'')))))
      else [])
   \<and> tpNote (mkRow [(''content'', ''- call landlord'')]) = js '' call landlord''"
proof -
  have c: "StringN (cleanupStrings v (Some [])) = trim (ToString v)" for v
    by (simp add: cleanupStrings_def)
  have gen: "tpNote item =
     (if truthy (getProp item ''content'')
      then join NL (map (\<lambda>line. case line of
                                  [] \<Rightarrow> []
                                | [c] \<Rightarrow> if c = 0x2D \<or> c = BULLET then [] else line
                                | c # d # r \<Rightarrow> if c = 0x2D \<and> d = BULLET then r
                                               else if c = 0x2D \<or> c = BULLET then d # r else line)
                        (split 0x0A (trim (ToString (getProp item ''content'')))))
      else [])"
    unfolding tpNote_def c replaceLeading_both by (rule refl)
  have ex: "tpNote (mkRow [(''content'', ''- call landlord'')]) = js '' call landlord''"
    by code_simp
  from gen ex show ?thesis by (rule conjI)
qed

theorem tpNote_lines_witness:
  "tpNote (mkRow [(''content'', ''x\<newline>  - milk\<newline>- eggs '')])
     = js ''x\<newline>  - milk\<newline> eggs''
   \<and> tpNote (mkRow [(''title'', ''Pay rent'')]) = []"
proof -
  let ?a = "mkRow [(''content'', ''x\<newline>  - milk\<newline>- eggs '')]"
  let ?b = "mkRow [(''title'', ''Pay rent'')]"
  have ta: "truthy (getProp ?a ''content'')" by code_simp
  have sa: "split 0x0A (trim (ToString (getProp ?a ''content'')))
            = [js ''x'', js ''  - milk'', js ''- eggs'']" by code_simp
  have tb: "\<not> truthy (getProp ?b ''content'')" by code_simp
  have 1: "tpNote ?a = js ''x\<newline>  - milk\<newline> eggs''"
    using tpNote_lines [of ?a, THEN conjunct1] ta unfolding sa
    by (simp add: js_def NL_def BULLET_def)
  have 2: "tpNote ?b = []"
    using tpNote_lines [of ?b, THEN conjunct1] tb by simp
  from 1 2 show ?thesis by (rule conjI)
qed

section \<open>Properties of the header detection\<close>

lemma foldl_conj: "foldl (\<lambda>acc each. acc \<and> each) b bs \<longleftrightarrow> b \<and> (\<forall>x\<in>set bs. x)"
  by (induction bs arbitrary: b) auto

lemma isHeaderRow_iff:
  "isHeaderRow E task \<longleftrightarrow>
     (\<forall>key\<in>set (keys task). keyToCamelCase E (ToString (getKey task key)) = key)"
  by (auto simp: isHeaderRow_def foldl_conj)

lemma findIndex_none: "(\<forall>x\<in>set xs. \<not> P x) \<Longrightarrow> findIndex P xs = - 1"
  by (induction xs) auto

lemma findIndex_first:
  "i < length xs \<Longrightarrow> P (xs ! i) \<Longrightarrow> (\<forall>j<i. \<not> P (xs ! j)) \<Longrightarrow> findIndex P xs = int i"
proof (induction xs arbitrary: i)
  case Nil
  then show ?case by simp
next
  case (Cons x xs)
  show ?case
  proof (cases i)
    case 0
    with Cons.prems show ?thesis by simp
  next
    case (Suc k)
    with Cons.prems have "\<not> P x" by auto
    moreover have "findIndex P xs = int k"
    proof (rule Cons.IH)
      show "k < length xs" using Cons.prems(1) Suc by simp
      show "P (xs ! k)" using Cons.prems(2) Suc by simp
      show "\<forall>j<k. \<not> P (xs ! j)"
      proof (intro allI impI)
        fix j assume "j < k"
        then have "Suc j < i" using Suc by simp
        with Cons.prems(3) have "\<not> P ((x # xs) ! Suc j)" by blast
        then show "\<not> P (xs ! j)" by simp
      qed
    qed
    ultimately show ?thesis using Suc by (simp add: Let_def)
  qed
qed

lemma splice_after: "splice xs (int i + 1) = drop (Suc i) xs"
  by (simp add: splice_def nat_add_distrib)

lemma splice_all: "splice xs (- 1 + 1) = xs"
  by (simp add: splice_def)

text \<open>
  Claim C4.  A row passes the header test when the camel-case transform of every
  field's value is that field's name.  If the row at index \<open>i\<close> is the first that passes,
  \<open>i\<close> is the header index, nothing is reported, and exactly the rows after \<open>i\<close> are
  converted; if no row passes, the index is \<open>-1\<close>, the format error is reported, and all
  the rows are converted.
\<close>

theorem header_detection:
  "(isHeaderRow E task \<longleftrightarrow>
      (\<forall>key\<in>set (keys task). keyToCamelCase E (ToString (getKey task key)) = key))
   \<and> (i < length json \<and> isHeaderRow E (json ! i) \<and> (\<forall>j<i. \<not> isHeaderRow E (json ! j))
        \<longrightarrow> headerRowIndex E json = int i
            \<and> parseJson E json = ([], render E (drop (Suc i) json)))
   \<and> ((\<forall>task\<in>set json. \<not> isHeaderRow E task)
        \<longrightarrow> headerRowIndex E json = - 1
            \<and> parseJson E json = ([format], render E json))"
proof (intro conjI impI)
  show "isHeaderRow E task \<longleftrightarrow>
      (\<forall>key\<in>set (keys task). keyToCamelCase E (ToString (getKey task key)) = key)"
    by (rule isHeaderRow_iff)
next
  assume a: "i < length json \<and> isHeaderRow E (json ! i) \<and> (\<forall>j<i. \<not> isHeaderRow E (json ! j))"
  then show idx: "headerRowIndex E json = int i"
    by (simp add: headerRowIndex_def findIndex_first)
  show "parseJson E json = ([], render E (drop (Suc i) json))"
    by (simp add: parseJson_def Let_def idx splice_after)
next
  assume a: "\<forall>task\<in>set json. \<not> isHeaderRow E task"
  then show idx: "headerRowIndex E json = - 1"
    by (simp add: headerRowIndex_def findIndex_none)
  show "parseJson E json = ([format], render E json)"
    by (simp add: parseJson_def Let_def idx splice_def)
qed

theorem header_detection_witness:
  "keyToCamelCase stubEnv (js ''Is Check list'') = js ''isCheckList''
   \<and> isHeaderRow stubEnv exampleHeader
   \<and> parseJson stubEnv [mkRow [(''folderName'', ''Date: 2024-03-01+0000'')], exampleHeader,
                        exampleTask ''Work'' ''Admin'' ''Pay rent'' []]
     = ([], Inr (NL @ js ''Work Admin:'' @ NL @ NL @ TAB @ js ''- Pay rent''))
   \<and> parseJson stubEnv [exampleTask ''Work'' ''Admin'' ''Pay rent'' []]
     = ([format], Inr (NL @ js ''Work Admin:'' @ NL @ NL @ TAB @ js ''- Pay rent''))"
proof -
  let ?d = "mkRow [(''folderName'', ''Date: 2024-03-01+0000'')]"
  let ?t = "exampleTask ''Work'' ''Admin'' ''Pay rent'' []"
  let ?out = "NL @ js ''Work Admin:'' @ NL @ NL @ TAB @ js ''- Pay rent''"
  have k: "keyToCamelCase stubEnv (js ''Is Check list'') = js ''isCheckList''"
    by code_simp
  have h: "isHeaderRow stubEnv exampleHeader" by code_simp
  have d: "\<not> isHeaderRow stubEnv ?d" by code_simp
  have t: "\<not> isHeaderRow stubEnv ?t" by code_simp
  have r: "render stubEnv [?t] = Inr ?out" by code_simp
  have first: "1 < length [?d, exampleHeader, ?t] \<and> isHeaderRow stubEnv ([?d, exampleHeader, ?t] ! 1)
               \<and> (\<forall>j<1. \<not> isHeaderRow stubEnv ([?d, exampleHeader, ?t] ! j))"
    using h d by simp
  have 1: "parseJson stubEnv [?d, exampleHeader, ?t] = ([], Inr ?out)"
    using header_detection [of stubEnv _ 1 "[?d, exampleHeader, ?t]",
            THEN conjunct2, THEN conjunct1, THEN mp, OF first] r
    by simp
  have none: "\<forall>task\<in>set [?t]. \<not> isHeaderRow stubEnv task"
    using t by simp
  have 2: "parseJson stubEnv [?t] = ([format], Inr ?out)"
    using header_detection [of stubEnv _ _ "[?t]",
            THEN conjunct2, THEN conjunct2, THEN mp, OF none] r
    by simp
  show ?thesis using k h 1 2 by blast
qed

text \<open>
  Claim C10.  When no row is left after the header (in particular when there is no row
  at all), the text is the empty string, and it is what \<^verbatim>\<open>copy\<close> is called with: no
  exception ends the run before.  (For no row at all the header is missing as well, and
  the format error is reported as for any input without a header.)
\<close>

theorem empty_data_set:
  "(splice json (headerRowIndex E json + 1) = [] \<longrightarrow> snd (parseJson E json) = Inr [])
   \<and> render E [] = Inr []
   \<and> parseJson E [] = ([format], Inr [])"
proof -
  have r: "render E [] = Inr []"
    by (simp add: render_def sortBy_def objectValues_def)
  have 1: "splice json (headerRowIndex E json + 1) = [] \<longrightarrow> snd (parseJson E json) = Inr []"
    by (simp add: parseJson_def Let_def r)
  have 2: "parseJson E [] = ([format], Inr [])"
    by (simp add: parseJson_def Let_def headerRowIndex_def splice_def r)
  from 1 r 2 show ?thesis by blast
qed

theorem empty_data_set_witness:
  "parseJson stubEnv [mkRow [(''folderName'', ''Date: 2024-03-01+0000'')], exampleHeader]
     = ([], Inr [])"
proof -
  let ?json = "[mkRow [(''folderName'', ''Date: 2024-03-01+0000'')], exampleHeader]"
  have s: "splice ?json (headerRowIndex stubEnv ?json + 1) = []" by code_simp
  have f: "fst (parseJson stubEnv ?json) = []" by code_simp
  have "snd (parseJson stubEnv ?json) = Inr []"
    using empty_data_set [of ?json stubEnv, THEN conjunct1] s by (rule mp)
  with f show ?thesis by (simp add: prod_eq_iff)
qed

section \<open>The order of the rows and of the buckets\<close>

text \<open>
  Claim C5 holds that the rows are sorted by the string of the project rule, \<open>tpProject\<close>.
  The comparator builds its own key, \<^verbatim>\<open>cleanupStrings(`${a.folderName} ${a.listName}`)\<close>,
  which trims the joined text only.  A folder cell with a space at its end (a quoted
  cell keeps it) gives the key \<^verbatim>\<open>A  C\<close>, which is below \<^verbatim>\<open>A B\<close>, while the project rule
  gives \<^verbatim>\<open>A C\<close>, which is above: the sort moves the task of project \<^verbatim>\<open>A C\<close> before the
  task of project \<^verbatim>\<open>A B\<close>.
\<close>

theorem sort_not_by_project_key:
  "sortBy sortByProjectAndCreation
     [exampleTask ''A'' ''B'' ''b'' ''2024-01-01T00:00:00.000+0000'',
      exampleTask ''A '' ''C'' ''a'' ''2024-01-02T00:00:00.000+0000'']
   = [exampleTask ''A '' ''C'' ''a'' ''2024-01-02T00:00:00.000+0000'',
      exampleTask ''A'' ''B'' ''b'' ''2024-01-01T00:00:00.000+0000'']
   \<and> tpProject (exampleTask ''A '' ''C'' ''a'' ''2024-01-02T00:00:00.000+0000'') = js ''A C''
   \<and> tpProject (exampleTask ''A'' ''B'' ''b'' ''2024-01-01T00:00:00.000+0000'') = js ''A B''
   \<and> str_lt (js ''A B'') (js ''A C'')"
  by code_simp

theorem sort_not_by_project_key_witness:
  "map tpProject (sortBy sortByProjectAndCreation
     [exampleTask ''A'' ''B'' ''b'' ''2024-01-01T00:00:00.000+0000'',
      exampleTask ''A '' ''C'' ''a'' ''2024-01-02T00:00:00.000+0000''])
   = [js ''A C'', js ''A B'']"
  using sort_not_by_project_key by simp

text \<open>
  Claim C6 holds that the buckets come out in the order in which the pass first meets
  their keys.  The buckets are the properties of a plain object, and \<^verbatim>\<open>Object.values\<close>
  lists the properties named by array indices first, in numeric order: of the projects
  \<^verbatim>\<open>10\<close> and \<^verbatim>\<open>9\<close>, sorted and met in this order, \<^verbatim>\<open>9\<close> is printed first.
\<close>

theorem buckets_not_in_first_encounter_order:
  "sortBy sortByProjectAndCreation [exampleTask [] ''10'' ''a'' [], exampleTask [] ''9'' ''b'' []]
     = [exampleTask [] ''10'' ''a'' [], exampleTask [] ''9'' ''b'' []]
   \<and> parseJson stubEnv [exampleHeader, exampleTask [] ''10'' ''a'' [], exampleTask [] ''9'' ''b'' []]
     = ([], Inr (NL @ js ''9:'' @ NL @ NL @ TAB @ js ''- b'' @ NL @ NL
                 @ NL @ js ''10:'' @ NL @ NL @ TAB @ js ''- a''))"
  by code_simp

theorem buckets_not_in_first_encounter_order_witness:
  "snd (parseJson stubEnv [exampleHeader, exampleTask [] ''10'' ''a'' [], exampleTask [] ''9'' ''b'' []])
     = Inr (NL @ js ''9:'' @ NL @ NL @ TAB @ js ''- b'' @ NL @ NL
            @ NL @ js ''10:'' @ NL @ NL @ TAB @ js ''- a'')"
  using buckets_not_in_first_encounter_order [THEN conjunct2] by simp

section \<open>The grouping and the layout of the text\<close>













lemma set_insertBy: "set (insertBy cmp x ys) = insert x (set ys)"
  by (induction ys) auto

lemma set_sortBy: "set (sortBy cmp xs) = set xs"
  by (induction xs) (simp_all add: sortBy_def set_insertBy)





text \<open>
  In the model \<^verbatim>\<open>sort\<close> is \<open>sortBy\<close>, which is the engine's sort where the comparator is
  consistent.  The layout below is stated for the sorted array itself, in whatever
  order it is.
\<close>

lemma render_groupAndJoin:
  "render E rows = groupAndJoin E (sortBy sortByProjectAndCreation rows)"
  by (simp add: render_def groupAndJoin_def)















end
